theory Spec2Isabelle
  imports Complex_Main
begin

section \<open>JavaScript numbers\<close>

text \<open>
  The component computes with JavaScript numbers. A number is modelled as a finite value,
  one of the two infinities, or NaN, so that a division by zero is a value of the model as
  it is in the program (\<open>5 / 0\<close> is \<open>Infinity\<close>, \<open>0 / 0\<close> is \<open>NaN\<close>) and not HOL's
  \<open>x / 0 = 0\<close>. Finite values are exact rationals: the rounding and the overflow of
  IEEE doubles are not modelled, and neither is the sign of zero (a zero divisor counts
  as \<open>+0\<close>, which is what a rectangle's width and height are).
\<close>

datatype number = Fin rat | PosInf | NegInf | NaN

fun is_finite :: "number \<Rightarrow> bool" where
  "is_finite (Fin a) = True"
| "is_finite PosInf = False"
| "is_finite NegInf = False"
| "is_finite NaN = False"

fun sign_of :: "number \<Rightarrow> rat" where
  "sign_of (Fin a) = sgn a"
| "sign_of PosInf = 1"
| "sign_of NegInf = - 1"
| "sign_of NaN = 0"

definition inf_of_sign :: "rat \<Rightarrow> number" where
  "inf_of_sign s = (if 0 < s then PosInf else if s < 0 then NegInf else NaN)"

fun js_neg :: "number \<Rightarrow> number" where
  "js_neg (Fin a) = Fin (- a)"
| "js_neg PosInf = NegInf"
| "js_neg NegInf = PosInf"
| "js_neg NaN = NaN"

fun js_add :: "number \<Rightarrow> number \<Rightarrow> number" where
  "js_add (Fin a) (Fin b) = Fin (a + b)"
| "js_add (Fin a) PosInf = PosInf"
| "js_add (Fin a) NegInf = NegInf"
| "js_add PosInf (Fin b) = PosInf"
| "js_add PosInf PosInf = PosInf"
| "js_add PosInf NegInf = NaN"
| "js_add NegInf (Fin b) = NegInf"
| "js_add NegInf PosInf = NaN"
| "js_add NegInf NegInf = NegInf"
| "js_add NaN b = NaN"
| "js_add a NaN = NaN"

definition js_sub :: "number \<Rightarrow> number \<Rightarrow> number" where
  "js_sub a b = js_add a (js_neg b)"

text \<open>A product with an infinite factor is infinite with the product's sign, and
  \<open>Infinity * 0\<close> is \<open>NaN\<close>.\<close>

fun js_mul :: "number \<Rightarrow> number \<Rightarrow> number" where
  "js_mul (Fin a) (Fin b) = Fin (a * b)"
| "js_mul NaN b = NaN"
| "js_mul a NaN = NaN"
| "js_mul a b = inf_of_sign (sign_of a * sign_of b)"

text \<open>A finite value over zero is infinite with the dividend's sign, and \<open>0 / 0\<close> is
  \<open>NaN\<close>; a finite value over an infinity is zero; an infinity over an infinity is
  \<open>NaN\<close>.\<close>

fun js_div :: "number \<Rightarrow> number \<Rightarrow> number" where
  "js_div (Fin a) (Fin b) = (if b = 0 then inf_of_sign (sgn a) else Fin (a / b))"
| "js_div NaN b = NaN"
| "js_div a NaN = NaN"
| "js_div (Fin a) b = Fin 0"
| "js_div PosInf (Fin b) = (if b < 0 then NegInf else PosInf)"
| "js_div NegInf (Fin b) = (if b < 0 then PosInf else NegInf)"
| "js_div a b = NaN"

section \<open>The data of the component\<close>

text \<open>
  The engine's orthographic camera (\<open>camera.left\<close>, \<open>camera.right\<close>, \<open>camera.top\<close>,
  \<open>camera.bottom\<close>), the rectangle \<open>canvas.getBoundingClientRect()\<close> returns, and the
  part of a mouse event the handler reads.
\<close>

record ortho_camera =
  cam_left :: number
  cam_right :: number
  cam_top :: number
  cam_bottom :: number

record dom_rect =
  rect_left :: number
  rect_top :: number
  rect_width :: number
  rect_height :: number

record mouse_event =
  clientX :: number
  clientY :: number

text \<open>The object \<open>{x, y, z}\<close> stored in \<open>this.coordinates\<close>.\<close>

record coords =
  coord_x :: number
  coord_y :: number
  coord_z :: number

text \<open>
  What the handlers read of \<open>this.dxfViewer\<close>: the canvas \<open>GetCanvas()\<close> returns,
  given by its bounding rectangle (\<open>None\<close> when there is no canvas), and the property
  \<open>camera\<close> (\<open>None\<close> when it is not set).
\<close>

record dxf_viewer =
  GetCanvas :: "dom_rect option"
  camera :: "ortho_camera option"

text \<open>The reactive state \<open>data()\<close> returns; \<open>null\<close> is \<open>None\<close>.\<close>

record component =
  isLoading :: bool
  progress :: "number option"
  progressText :: "string option"
  curProgressPhase :: "string option"
  error :: "string option"
  coordinates :: "coords option"

definition data :: component where
  "data = \<lparr>isLoading = False, progress = None, progressText = None,
           curProgressPhase = None, error = None, coordinates = None\<rparr>"

text \<open>
  The value a rejected engine load throws into \<open>Load\<close>: a promise can reject with any
  value. It is \<open>undefined\<close>, \<open>null\<close>, or a value with a \<open>toString\<close> method (an
  \<open>Error\<close> object, a string), given by the text the method returns.
\<close>

datatype js_error = JsUndefined | JsNull | JsError string

text \<open>What the runtime throws when a property of \<open>undefined\<close> or \<open>null\<close> is read.\<close>

datatype js_exception = TypeError

text \<open>The call \<open>error.toString()\<close>: it throws on \<open>undefined\<close> and on \<open>null\<close>.\<close>

fun toString :: "js_error \<Rightarrow> js_exception + string" where
  "toString JsUndefined = Inl TypeError"
| "toString JsNull = Inl TypeError"
| "toString (JsError text) = Inr text"

text \<open>
  How the promise of \<open>this.dxfViewer.Load\<close> settles: it resolves, and the continuation
  then reads \<open>this.dxfViewer.camera\<close>, or it rejects with a thrown value.
\<close>

datatype outcome = Resolved "ortho_camera option" | Rejected js_error

text \<open>The calls the component makes on the engine.\<close>

datatype engine_call = EngineLoad string | EngineClear

section \<open>Load\<close>

text \<open>
  The component is modelled between \<open>mounted\<close> and \<open>destroyed\<close>, while
  \<open>this.dxfViewer\<close> is the engine that \<open>mounted\<close> constructed.

  \<open>Load\<close> is an async function. Its part up to the \<open>await\<close> runs when it is called:
  it sets \<open>isLoading\<close>, clears \<open>error\<close> and calls the engine. Its part after the
  \<open>await\<close> runs when the engine's promise settles.
\<close>

definition Load_begin :: "string \<Rightarrow> component \<Rightarrow> component \<times> engine_call list" where
  "Load_begin url this = (this\<lparr>isLoading := True, error := None\<rparr>, [EngineLoad url])"

text \<open>The rest of the \<open>try\<close> block: a rejection is thrown at the \<open>await\<close>; after a
  resolution the coordinates are set to the centre of the camera, if there is one.\<close>

definition Load_try :: "outcome \<Rightarrow> component \<Rightarrow> js_error + component" where
  "Load_try r this =
     (case r of
        Rejected e \<Rightarrow> Inl e
      | Resolved None \<Rightarrow> Inr this
      | Resolved (Some cam) \<Rightarrow>
          Inr (this\<lparr>coordinates := Some
            \<lparr>coord_x = js_div (js_add (cam_left cam) (cam_right cam)) (Fin 2),
             coord_y = js_div (js_add (cam_bottom cam) (cam_top cam)) (Fin 2),
             coord_z = Fin 0\<rparr>\<rparr>))"

text \<open>
  The \<open>catch\<close> block; its first component is what it throws itself. When
  \<open>error.toString()\<close> throws, the assignment to \<open>this.error\<close> does not happen.
\<close>

definition Load_catch :: "js_error \<Rightarrow> component \<Rightarrow> js_exception option \<times> component" where
  "Load_catch e this =
     (case toString e of
        Inl thrown \<Rightarrow> (Some thrown, this)
      | Inr text \<Rightarrow> (None, this\<lparr>error := Some text\<rparr>))"

definition Load_finally :: "component \<Rightarrow> component" where
  "Load_finally this =
     this\<lparr>isLoading := False, progressText := None, progress := None,
          curProgressPhase := None\<rparr>"

text \<open>
  The continuation of \<open>Load\<close>. The first component is the exception that leaves
  \<open>Load\<close> (its promise rejects with it), \<open>None\<close> when its promise resolves. The
  \<open>finally\<close> block runs in every case, also when the \<open>catch\<close> block throws.
\<close>

definition Load_settle :: "outcome \<Rightarrow> component \<Rightarrow> js_exception option \<times> component" where
  "Load_settle r this =
     (case Load_try r this of
        Inr this' \<Rightarrow> (None, Load_finally this')
      | Inl e \<Rightarrow> (case Load_catch e this of (thrown, this') \<Rightarrow> (thrown, Load_finally this')))"

section \<open>The watcher of the document URL\<close>

definition watch_dxfUrl :: "string option \<Rightarrow> component \<Rightarrow> component \<times> engine_call list" where
  "watch_dxfUrl dxfUrl this =
     (case dxfUrl of
        Some url \<Rightarrow> Load_begin url this
      | None \<Rightarrow> (this\<lparr>error := None, isLoading := False, progress := None\<rparr>, [EngineClear]))"

section \<open>The pointer-move handler\<close>

text \<open>
  The method \<open>_OnMouseMove\<close> (a name cannot start with an underscore here). It returns
  the state and the events it emits. The handler tests \<open>this.dxfViewer\<close> itself, so it
  takes it as an argument, \<open>None\<close> when it is not set.
\<close>

definition OnMouseMove ::
    "dxf_viewer option \<Rightarrow> mouse_event \<Rightarrow> component \<Rightarrow> component \<times> (string \<times> coords) list" where
  "OnMouseMove dxfViewer event this =
     (case dxfViewer of
        None \<Rightarrow> (this, [])
      | Some viewer \<Rightarrow>
         (case GetCanvas viewer of
            None \<Rightarrow> (this, [])
          | Some rect \<Rightarrow>
             (let x = js_sub (clientX event) (rect_left rect);
                  y = js_sub (clientY event) (rect_top rect);
                  ndcX = js_sub (js_mul (js_div x (rect_width rect)) (Fin 2)) (Fin 1);
                  ndcY = js_add (js_mul (js_neg (js_div y (rect_height rect))) (Fin 2)) (Fin 1)
              in (case camera viewer of
                    None \<Rightarrow> (this, [])
                  | Some cam \<Rightarrow>
                     (let camWidth = js_sub (cam_right cam) (cam_left cam);
                          camHeight = js_sub (cam_top cam) (cam_bottom cam);
                          worldX = js_add (cam_left cam)
                                     (js_div (js_mul (js_add ndcX (Fin 1)) camWidth) (Fin 2));
                          worldY = js_add (cam_bottom cam)
                                     (js_div (js_mul (js_add ndcY (Fin 1)) camHeight) (Fin 2));
                          c = \<lparr>coord_x = worldX, coord_y = worldY, coord_z = Fin 0\<rparr>
                      in (this\<lparr>coordinates := Some c\<rparr>, [(''coordinates-update'', c)]))))))"

section \<open>The progress callback\<close>

text \<open>The \<open>switch\<close> of the method \<open>_OnProgress\<close> over the phase: a phase with no case
  leaves the text as it is.\<close>

definition switch_phase :: "string \<Rightarrow> component \<Rightarrow> component" where
  "switch_phase phase this =
     (if phase = ''font'' then this\<lparr>progressText := Some ''Fetching fonts...''\<rparr>
      else if phase = ''fetch'' then this\<lparr>progressText := Some ''Fetching file...''\<rparr>
      else if phase = ''parse'' then this\<lparr>progressText := Some ''Parsing file...''\<rparr>
      else if phase = ''prepare'' then this\<lparr>progressText := Some ''Preparing rendering data...''\<rparr>
      else this)"

definition OnProgress :: "string \<Rightarrow> number \<Rightarrow> number option \<Rightarrow> component \<Rightarrow> component" where
  "OnProgress phase size' totalSize this =
     (let this1 = (if Some phase \<noteq> curProgressPhase this
                   then (switch_phase phase this)\<lparr>curProgressPhase := Some phase\<rparr>
                   else this)
      in (case totalSize of
            None \<Rightarrow> this1\<lparr>progress := Some (Fin (- 1))\<rparr>
          | Some t \<Rightarrow> this1\<lparr>progress := Some (js_div size' t)\<rparr>))"

section \<open>The event relay\<close>

definition relayed_events :: "string list" where
  "relayed_events = [''loaded'', ''cleared'', ''destroyed'', ''resized'', ''pointerdown'',
                     ''pointerup'', ''viewChanged'', ''message'']"

text \<open>
  The local function \<open>Subscribe\<close> of \<open>mounted\<close>: it registers, under the event's name,
  a handler that emits the event \<open>"dxf-" + eventName\<close> with the handler's argument. The
  engine's subscriptions are the list of the registered pairs, in the order of the calls.
\<close>

definition Subscribe ::
    "string \<Rightarrow> (string \<times> ('p \<Rightarrow> string \<times> 'p)) list \<Rightarrow> (string \<times> ('p \<Rightarrow> string \<times> 'p)) list" where
  "Subscribe eventName subs = subs @ [(eventName, \<lambda>e. (''dxf-'' @ eventName, e))]"

definition mounted :: "(string \<times> ('p \<Rightarrow> string \<times> 'p)) list" where
  "mounted = foldl (\<lambda>subs eventName. Subscribe eventName subs) [] relayed_events"

text \<open>
  Modelled from the spec: the engine's event dispatch, which is code of the external
  rendering engine. Triggering an event calls every handler subscribed under its name
  with the payload; the result lists what the handlers emit.
\<close>

definition trigger :: "(string \<times> ('p \<Rightarrow> string \<times> 'p)) list \<Rightarrow> string \<Rightarrow> 'p \<Rightarrow> (string \<times> 'p) list" where
  "trigger subs eventName e = map (\<lambda>(n, h). h e) (filter (\<lambda>(n, h). n = eventName) subs)"

section \<open>Runs of the component\<close>

text \<open>
  All state is changed on one thread, one handler at a time. An event is a change of the
  document URL (which starts a load or clears), a progress callback of the engine, the
  settlement of a load's promise, or a mouse move. The component keeps no token that
  tells the loads apart: the continuation of \<open>Load\<close> depends on the outcome only.
\<close>

datatype event =
    DxfUrl "string option"
  | Progress string number "number option"
  | Settled outcome
  | MouseMoved "dxf_viewer option" mouse_event

fun step :: "component \<Rightarrow> event \<Rightarrow> component" where
  "step this (DxfUrl dxfUrl) = fst (watch_dxfUrl dxfUrl this)"
| "step this (Progress phase size' totalSize) = OnProgress phase size' totalSize this"
| "step this (Settled r) = snd (Load_settle r this)"
| "step this (MouseMoved dxfViewer ev) = fst (OnMouseMove dxfViewer ev this)"

definition run :: "event list \<Rightarrow> component \<Rightarrow> component" where
  "run es this = foldl step this es"

text \<open>The states the component can be in: those some run reaches from \<open>data()\<close>.\<close>

inductive reachable :: "component \<Rightarrow> bool" where
  initial: "reachable data"
| after: "reachable this \<Longrightarrow> reachable (step this e)"

text \<open>The events that neither start nor settle a load.\<close>

fun quiet :: "event \<Rightarrow> bool" where
  "quiet (Progress phase size' totalSize) = True"
| "quiet (MouseMoved dxfViewer ev) = True"
| "quiet (DxfUrl dxfUrl) = False"
| "quiet (Settled r) = False"

section \<open>The coordinate mapping of the specification\<close>

text \<open>
  The mapping as the specification words it, over exact numbers, for a device point
  \<open>(x, y)\<close>, a viewport \<open>(width, height)\<close> and camera bounds
  \<open>(left, right, top, bottom)\<close>: \<open>ndcX = (x / width) * 2 - 1\<close>,
  \<open>ndcY = -(y / height) * 2 + 1\<close>, \<open>worldX = left + (ndcX + 1) * (right - left) / 2\<close>,
  \<open>worldY = bottom + (ndcY + 1) * (top - bottom) / 2\<close>, \<open>worldZ = 0\<close>.
\<close>

fun MapPointer :: "rat \<times> rat \<Rightarrow> rat \<times> rat \<Rightarrow> rat \<times> rat \<times> rat \<times> rat \<Rightarrow> rat \<times> rat \<times> rat" where
  "MapPointer (x, y) (w, h) (l, r, t, b) =
     (let ndcX = (x / w) * 2 - 1;
          ndcY = - (y / h) * 2 + 1
      in (l + (ndcX + 1) * (r - l) / 2, b + (ndcY + 1) * (t - b) / 2, 0))"

section \<open>Runs and frames\<close>

lemma run_Nil: "run [] this = this"
  by (simp add: run_def)

lemma run_Cons: "run (e # es) this = run es (step this e)"
  by (simp add: run_def)

lemma run_append: "run (es @ es') this = run es' (run es this)"
  by (simp add: run_def)

lemma Load_settle_fields:
  "isLoading (snd (Load_settle r this)) = False"
  "progress (snd (Load_settle r this)) = None"
  "progressText (snd (Load_settle r this)) = None"
  "curProgressPhase (snd (Load_settle r this)) = None"
  by (simp_all add: Load_settle_def Load_try_def Load_catch_def Load_finally_def
        split: outcome.splits option.splits sum.splits)

lemma Load_settle_error:
  "error (snd (Load_settle r this)) =
     (case r of
        Rejected e \<Rightarrow> (case toString e of Inl thrown \<Rightarrow> error this | Inr text \<Rightarrow> Some text)
      | Resolved cam \<Rightarrow> error this)"
  by (simp add: Load_settle_def Load_try_def Load_catch_def Load_finally_def
        split: outcome.splits option.splits sum.splits)

lemma OnProgress_frame:
  "isLoading (OnProgress phase sz totalSize this) = isLoading this"
  "error (OnProgress phase sz totalSize this) = error this"
  "coordinates (OnProgress phase sz totalSize this) = coordinates this"
  by (simp_all add: OnProgress_def switch_phase_def Let_def split: option.splits)

lemma OnMouseMove_frame:
  "isLoading (fst (OnMouseMove v ev this)) = isLoading this"
  "error (fst (OnMouseMove v ev this)) = error this"
  "progress (fst (OnMouseMove v ev this)) = progress this"
  "progressText (fst (OnMouseMove v ev this)) = progressText this"
  "curProgressPhase (fst (OnMouseMove v ev this)) = curProgressPhase this"
  by (simp_all add: OnMouseMove_def Let_def split: option.splits)

lemma reachable_run: "reachable this \<Longrightarrow> reachable (run es this)"
  by (induction es arbitrary: this) (simp_all add: run_Nil run_Cons reachable.after)

section \<open>The settlement of a load\<close>

text \<open>
  Claim C3. Whatever the outcome of the engine's load and whatever the state before, the
  \<open>finally\<close> block of \<open>Load\<close> leaves \<open>isLoading\<close> false and \<open>progress\<close>,
  \<open>curProgressPhase\<close> (the progress phase) and \<open>progressText\<close> (the progress label)
  null. Only \<open>error\<close> can differ from its default afterwards: it is the failure's text
  after a rejection and what it was before after a resolution (and after the rejection
  with \<open>undefined\<close> or \<open>null\<close>, which has no text).
\<close>

theorem Load_finalizer_clears:
  "isLoading (snd (Load_settle r this)) = False \<and>
   progress (snd (Load_settle r this)) = None \<and>
   curProgressPhase (snd (Load_settle r this)) = None \<and>
   progressText (snd (Load_settle r this)) = None \<and>
   error (snd (Load_settle r this)) =
     (case r of
        Rejected e \<Rightarrow> (case toString e of Inl thrown \<Rightarrow> error this | Inr text \<Rightarrow> Some text)
      | Resolved cam \<Rightarrow> error this)"
  by (simp add: Load_settle_fields Load_settle_error)

text \<open>
  A rejection with a value that has a \<open>toString\<close> method is caught: no exception leaves
  \<open>Load\<close>, and the state differs from the state before only in \<open>error\<close>, which is the
  value's text, and in the fields the \<open>finally\<close> block clears. No exception leaves
  \<open>Load\<close> after a resolution either.
\<close>

lemma Load_rejection_described:
  "Load_settle (Rejected (JsError text)) this =
     (None, this\<lparr>isLoading := False, progress := None, progressText := None,
                 curProgressPhase := None, error := Some text\<rparr>)"
  "fst (Load_settle (Resolved cam) this) = None"
  by (simp_all add: Load_settle_def Load_try_def Load_catch_def Load_finally_def
        split: option.splits)

text \<open>
  Claim C9 holds of the specification and not of the code. The \<open>catch\<close> block calls
  \<open>error.toString()\<close> on the thrown value. When the engine's promise rejects with
  \<open>undefined\<close> or \<open>null\<close>, this call throws a \<open>TypeError\<close> inside the \<open>catch\<close>
  block: the \<open>finally\<close> block runs, \<open>error\<close> is not set, and the promise of \<open>Load\<close>
  rejects with the \<open>TypeError\<close>. After a load that started in the initial state,
  \<open>error\<close> is null although the load failed.
\<close>

theorem Load_rejection_without_text_escapes:
  "Load_settle (Rejected JsUndefined) this =
     (Some TypeError, this\<lparr>isLoading := False, progress := None, progressText := None,
                           curProgressPhase := None\<rparr>) \<and>
   Load_settle (Rejected JsNull) this =
     (Some TypeError, this\<lparr>isLoading := False, progress := None, progressText := None,
                           curProgressPhase := None\<rparr>) \<and>
   fst (Load_settle (Rejected JsUndefined) (fst (Load_begin ''a.dxf'' data))) = Some TypeError \<and>
   error (snd (Load_settle (Rejected JsUndefined) (fst (Load_begin ''a.dxf'' data)))) = None"
  by (simp add: Load_settle_def Load_try_def Load_catch_def Load_finally_def Load_begin_def
        data_def)

section \<open>The invariant of the load state\<close>

lemma step_invariant:
  assumes "error this \<noteq> None \<longrightarrow> \<not> isLoading this"
  shows "error (step this e) \<noteq> None \<longrightarrow> \<not> isLoading (step this e)"
proof (cases e)
  case (DxfUrl u)
  then show ?thesis
    by (simp add: watch_dxfUrl_def Load_begin_def split: option.splits)
next
  case (Progress phase sz totalSize)
  with assms show ?thesis by (simp add: OnProgress_frame)
next
  case (Settled r)
  then show ?thesis by (simp add: Load_settle_fields)
next
  case (MouseMoved v ev)
  with assms show ?thesis by (simp add: OnMouseMove_frame)
qed

text \<open>
  Claim C2. In every state the component reaches from \<open>data()\<close> by URL changes (loads
  and clears), progress callbacks, settlements and mouse moves, in any order and number,
  a non-null \<open>error\<close> comes with \<open>isLoading\<close> false. The states are those between two
  handlers: each handler runs to its end before the next one starts.
\<close>

theorem error_implies_not_loading:
  "reachable this \<Longrightarrow> error this \<noteq> None \<Longrightarrow> \<not> isLoading this"
proof (induction rule: reachable.induct)
  case initial
  then show ?case by (simp add: data_def)
next
  case (after this e)
  then show ?case using step_invariant [of this e] by blast
qed

theorem error_implies_not_loading_witness:
  "reachable (run [DxfUrl (Some ''a.dxf''), Settled (Rejected (JsError ''Error: no file''))] data) \<and>
   error (run [DxfUrl (Some ''a.dxf''), Settled (Rejected (JsError ''Error: no file''))] data)
     = Some ''Error: no file'' \<and>
   \<not> isLoading (run [DxfUrl (Some ''a.dxf''), Settled (Rejected (JsError ''Error: no file''))] data)"
proof -
  let ?s = "run [DxfUrl (Some ''a.dxf''), Settled (Rejected (JsError ''Error: no file''))] data"
  have r: "reachable ?s" by (rule reachable_run) (rule reachable.initial)
  have e: "error ?s = Some ''Error: no file''"
    by (simp add: run_Cons run_Nil Load_settle_error)
  then have "error ?s \<noteq> None" by simp
  with r have "\<not> isLoading ?s" by (rule error_implies_not_loading)
  with r e show ?thesis by simp
qed

section \<open>Clearing\<close>

text \<open>
  What the branch of the watcher for a null URL does: it tells the engine to clear and
  assigns \<open>error\<close>, \<open>isLoading\<close> and \<open>progress\<close>. It is idempotent.
\<close>

lemma watch_dxfUrl_None_fields:
  "watch_dxfUrl None this = (step this (DxfUrl None), [EngineClear])"
  "isLoading (step this (DxfUrl None)) = False"
  "error (step this (DxfUrl None)) = None"
  "progress (step this (DxfUrl None)) = None"
  "step (step this (DxfUrl None)) (DxfUrl None) = step this (DxfUrl None)"
  "step data (DxfUrl None) = data"
  by (simp_all add: watch_dxfUrl_def data_def)

text \<open>
  Claim C4 holds of the specification and not of the code. The branch of the watcher for
  a null URL resets \<open>progress\<close> but neither \<open>progressText\<close> nor \<open>curProgressPhase\<close>,
  which the \<open>finally\<close> block of \<open>Load\<close> resets together with \<open>progress\<close>. When the
  URL is set to null after a progress callback of a load in flight, the progress label
  and the progress phase keep their values. The label left behind is then shown by a
  later load: after a new load starts and reports a phase that has no label, the label
  is still \<open>Fetching file...\<close>, where a load on a fresh component shows none.
\<close>

theorem Clear_leaves_stale_label:
  "progressText (run [DxfUrl (Some ''a.dxf''), Progress ''fetch'' (Fin 50) (Some (Fin 100)),
                      DxfUrl None] data) = Some ''Fetching file...'' \<and>
   curProgressPhase (run [DxfUrl (Some ''a.dxf''), Progress ''fetch'' (Fin 50) (Some (Fin 100)),
                          DxfUrl None] data) = Some ''fetch'' \<and>
   progress (run [DxfUrl (Some ''a.dxf''), Progress ''fetch'' (Fin 50) (Some (Fin 100)),
                  DxfUrl None] data) = None \<and>
   progressText (run [DxfUrl (Some ''a.dxf''), Progress ''fetch'' (Fin 50) (Some (Fin 100)),
                      DxfUrl None, DxfUrl (Some ''b.dxf''), Progress ''other'' (Fin 1) None] data)
     = Some ''Fetching file...'' \<and>
   progress (run [DxfUrl (Some ''a.dxf''), Progress ''fetch'' (Fin 50) (Some (Fin 100)),
                  DxfUrl None, DxfUrl (Some ''b.dxf''), Progress ''other'' (Fin 1) None] data)
     = Some (Fin (- 1)) \<and>
   progressText (run [DxfUrl (Some ''b.dxf''), Progress ''other'' (Fin 1) None] data) = None"
  by (simp add: run_Cons run_Nil watch_dxfUrl_def Load_begin_def OnProgress_def switch_phase_def
        data_def)

section \<open>Progress\<close>

text \<open>
  Claim C7. When the phase of a progress callback differs from the recorded one, the
  label is the phase's entry in the table (font, fetch, parse, prepare), and a phase with
  no entry leaves the label as it is; when the phase is the recorded one the label stays.
  The phase is recorded. Then \<open>progress\<close> is \<open>-1\<close> when \<open>totalSize\<close> is null and the
  quotient \<open>size / totalSize\<close> otherwise, with no clamping: for finite numbers and a
  non-zero \<open>totalSize\<close> it is the exact quotient.
\<close>

theorem OnProgress_label_and_ratio:
  "(Some phase \<noteq> curProgressPhase this \<longrightarrow>
      progressText (OnProgress phase sz totalSize this) =
        (if phase = ''font'' then Some ''Fetching fonts...''
         else if phase = ''fetch'' then Some ''Fetching file...''
         else if phase = ''parse'' then Some ''Parsing file...''
         else if phase = ''prepare'' then Some ''Preparing rendering data...''
         else progressText this)) \<and>
   (Some phase = curProgressPhase this \<longrightarrow>
      progressText (OnProgress phase sz totalSize this) = progressText this) \<and>
   curProgressPhase (OnProgress phase sz totalSize this) = Some phase \<and>
   progress (OnProgress phase sz None this) = Some (Fin (- 1)) \<and>
   progress (OnProgress phase sz (Some t) this) = Some (js_div sz t) \<and>
   (b \<noteq> 0 \<longrightarrow> progress (OnProgress phase (Fin a) (Some (Fin b)) this) = Some (Fin (a / b)))"
  by (simp add: OnProgress_def switch_phase_def Let_def split: option.splits)

theorem OnProgress_label_and_ratio_witness:
  "Some ''fetch'' \<noteq> curProgressPhase data \<and> (100::rat) \<noteq> 0 \<and>
   progressText (OnProgress ''fetch'' (Fin 50) (Some (Fin 100)) data) = Some ''Fetching file...'' \<and>
   progress (OnProgress ''fetch'' (Fin 50) (Some (Fin 100)) data) = Some (Fin (1 / 2)) \<and>
   progressText (OnProgress ''parse'' (Fin 10) None data) = Some ''Parsing file...'' \<and>
   progress (OnProgress ''parse'' (Fin 10) None data) = Some (Fin (- 1)) \<and>
   progressText (OnProgress ''parse'' (Fin 10) None (OnProgress ''parse'' (Fin 5) None data))
     = progressText (OnProgress ''parse'' (Fin 5) None data) \<and>
   progress (OnProgress ''fetch'' (Fin 150) (Some (Fin 100)) data) = Some (Fin (3 / 2))"
proof -
  have fresh: "Some p \<noteq> curProgressPhase data" for p
    by (simp add: data_def)
  have fetch: "progressText (OnProgress ''fetch'' (Fin 50) (Some (Fin 100)) data) = Some ''Fetching file...''"
    using OnProgress_label_and_ratio
      [where phase = "''fetch''" and this = data and sz = "Fin 50" and totalSize = "Some (Fin 100)"]
      fresh by simp
  have half: "progress (OnProgress ''fetch'' (Fin 50) (Some (Fin 100)) data) = Some (Fin (1 / 2))"
    using OnProgress_label_and_ratio
      [where phase = "''fetch''" and this = data and a = 50 and b = 100] by simp
  have parse: "progressText (OnProgress ''parse'' (Fin 10) None data) = Some ''Parsing file...''"
    using OnProgress_label_and_ratio
      [where phase = "''parse''" and this = data and sz = "Fin 10" and totalSize = None]
      fresh by simp
  have indet: "progress (OnProgress ''parse'' (Fin 10) None data) = Some (Fin (- 1))"
    using OnProgress_label_and_ratio [where phase = "''parse''" and this = data and sz = "Fin 10"]
    by simp
  have cur: "curProgressPhase (OnProgress ''parse'' (Fin 5) None data) = Some ''parse''"
    using OnProgress_label_and_ratio
      [where phase = "''parse''" and this = data and sz = "Fin 5" and totalSize = None]
    by simp
  have same: "progressText (OnProgress ''parse'' (Fin 10) None (OnProgress ''parse'' (Fin 5) None data))
     = progressText (OnProgress ''parse'' (Fin 5) None data)"
    using OnProgress_label_and_ratio
      [where phase = "''parse''" and this = "OnProgress ''parse'' (Fin 5) None data"
         and sz = "Fin 10" and totalSize = None] cur
    by simp
  have over: "progress (OnProgress ''fetch'' (Fin 150) (Some (Fin 100)) data) = Some (Fin (3 / 2))"
    using OnProgress_label_and_ratio
      [where phase = "''fetch''" and this = data and a = 150 and b = 100] by simp
  from fresh fetch half parse indet same over show ?thesis by simp
qed

section \<open>The frame of the coordinates\<close>

text \<open>
  Claim C10. An event that changes \<open>coordinates\<close> is a mouse move or the resolution of
  a load with a camera; the latter sets them to the centre of the camera's bounds. A
  null URL (clear), the start of a load, a rejected load, a resolved load with no camera
  and a progress callback leave them as they are.
\<close>

theorem coordinates_frame:
  "(coordinates (step this e) \<noteq> coordinates this \<longrightarrow>
      (\<exists>dxfViewer ev. e = MouseMoved dxfViewer ev) \<or> (\<exists>cam. e = Settled (Resolved (Some cam)))) \<and>
   coordinates (step this (Settled (Resolved (Some cam)))) =
      Some \<lparr>coord_x = js_div (js_add (cam_left cam) (cam_right cam)) (Fin 2),
            coord_y = js_div (js_add (cam_bottom cam) (cam_top cam)) (Fin 2),
            coord_z = Fin 0\<rparr> \<and>
   coordinates (step this (DxfUrl None)) = coordinates this \<and>
   coordinates (step this (DxfUrl (Some url))) = coordinates this \<and>
   coordinates (step this (Settled (Rejected err))) = coordinates this \<and>
   coordinates (step this (Settled (Resolved None))) = coordinates this \<and>
   coordinates (step this (Progress phase sz totalSize)) = coordinates this"
proof -
  have settle: "coordinates (snd (Load_settle r this)) =
      (case r of Resolved (Some cam) \<Rightarrow>
          Some \<lparr>coord_x = js_div (js_add (cam_left cam) (cam_right cam)) (Fin 2),
                coord_y = js_div (js_add (cam_bottom cam) (cam_top cam)) (Fin 2),
                coord_z = Fin 0\<rparr>
       | _ \<Rightarrow> coordinates this)" for r
    by (simp add: Load_settle_def Load_try_def Load_catch_def Load_finally_def
          split: outcome.splits option.splits sum.splits)
  have url: "coordinates (step this (DxfUrl u)) = coordinates this" for u
    by (simp add: watch_dxfUrl_def Load_begin_def split: option.splits)
  have "(\<exists>dxfViewer ev. e = MouseMoved dxfViewer ev) \<or> (\<exists>cam. e = Settled (Resolved (Some cam)))"
    if "coordinates (step this e) \<noteq> coordinates this"
  proof (cases e)
    case (DxfUrl u)
    with that url show ?thesis by simp
  next
    case (Progress phase sz totalSize)
    with that show ?thesis by (simp add: OnProgress_frame)
  next
    case (Settled r)
    with that settle [of r] show ?thesis by (auto split: outcome.splits option.splits)
  next
    case (MouseMoved v ev)
    then show ?thesis by simp
  qed
  then show ?thesis
    using settle [of "Resolved (Some cam)"] settle [of "Rejected err"] settle [of "Resolved None"]
      url [of None] url [of "Some url"]
    by (simp add: OnProgress_frame)
qed

theorem coordinates_frame_witness:
  "coordinates (step data (Settled (Resolved (Some
      \<lparr>cam_left = Fin (- 10), cam_right = Fin 30, cam_top = Fin 10, cam_bottom = Fin 0\<rparr>))))
     = Some \<lparr>coord_x = Fin 10, coord_y = Fin 5, coord_z = Fin 0\<rparr> \<and>
   coordinates (step data (Settled (Resolved (Some
      \<lparr>cam_left = Fin (- 10), cam_right = Fin 30, cam_top = Fin 10, cam_bottom = Fin 0\<rparr>))))
     \<noteq> coordinates data"
  using coordinates_frame [of data "Settled (Resolved (Some
      \<lparr>cam_left = Fin (- 10), cam_right = Fin 30, cam_top = Fin 10, cam_bottom = Fin 0\<rparr>))"
      "\<lparr>cam_left = Fin (- 10), cam_right = Fin 30, cam_top = Fin 10, cam_bottom = Fin 0\<rparr>"]
  by (simp add: data_def)

section \<open>Overlapping loads\<close>

lemma quiet_frame:
  assumes "quiet e"
  shows "isLoading (step this e) = isLoading this" and "error (step this e) = error this"
  using assms by (cases e; simp add: OnProgress_frame OnMouseMove_frame)+

lemma quiet_run_frame:
  "list_all quiet es \<Longrightarrow>
     isLoading (run es this) = isLoading this \<and> error (run es this) = error this"
  by (induction es arbitrary: this) (simp_all add: run_Nil run_Cons quiet_frame)

lemma Load_begin_fields:
  "isLoading (fst (watch_dxfUrl (Some url) this)) = True"
  "error (fst (watch_dxfUrl (Some url) this)) = None"
  by (simp_all add: watch_dxfUrl_def Load_begin_def)

text \<open>
  Claim C1, as stated, fails: the component has no generation token, and the continuation
  of a superseded load commits like any other. With load A started and then load B, the
  rejection of A sets \<open>isLoading\<close> to false while B is in flight (B had set it to
  true), and after B then resolves the state has the error of A, where B's outcome alone
  leaves \<open>error\<close> null.
\<close>

theorem stale_settlement_counterexample:
  "isLoading (run [DxfUrl (Some ''a.dxf''), DxfUrl (Some ''b.dxf'')] data) = True \<and>
   isLoading (run [DxfUrl (Some ''a.dxf''), DxfUrl (Some ''b.dxf''),
                   Settled (Rejected (JsError ''Error: A''))] data) = False \<and>
   error (run [DxfUrl (Some ''a.dxf''), DxfUrl (Some ''b.dxf''),
               Settled (Rejected (JsError ''Error: A'')), Settled (Resolved None)] data)
     = Some ''Error: A'' \<and>
   error (run [DxfUrl (Some ''b.dxf''), Settled (Resolved None)] data) = None"
  by (simp add: run_Cons run_Nil Load_begin_fields Load_settle_fields Load_settle_error data_def)

text \<open>
  Claim C1, amended. Let load A start, then load B, and then the two loads settle, in
  either order, with only progress callbacks and mouse moves in between. Once both have
  started \<open>isLoading\<close> is true and \<open>error\<close> null. The first settlement commits:
  it sets \<open>isLoading\<close> to false and \<open>progress\<close>, phase and label to null, and leaves
  the text of its failure, or null, in \<open>error\<close>. After the second settlement
  \<open>isLoading\<close> is false and \<open>progress\<close>, phase and label are null again, and \<open>error\<close>
  is the text of the second failure, or what the first settlement left when the second
  load resolved. A rejection with \<open>undefined\<close> or \<open>null\<close> has no text and leaves
  \<open>error\<close> as a resolution does.
\<close>

theorem overlapping_settlements_all_commit:
  assumes "list_all quiet es0" and "list_all quiet es1" and "list_all quiet es2"
  shows "let started = run (DxfUrl (Some a) # es0 @ DxfUrl (Some b) # es1) this;
             first = step started (Settled r1);
             second = step (run es2 first) (Settled r2)
         in isLoading started = True \<and> error started = None \<and>
            isLoading first = False \<and> progress first = None \<and>
            curProgressPhase first = None \<and> progressText first = None \<and>
            error first =
              (case r1 of
                 Rejected e \<Rightarrow> (case toString e of Inl thrown \<Rightarrow> None | Inr text \<Rightarrow> Some text)
               | Resolved cam \<Rightarrow> None) \<and>
            isLoading second = False \<and> progress second = None \<and>
            curProgressPhase second = None \<and> progressText second = None \<and>
            error second =
              (case r2 of
                 Rejected e \<Rightarrow>
                   (case toString e of Inl thrown \<Rightarrow> error first | Inr text \<Rightarrow> Some text)
               | Resolved cam \<Rightarrow> error first)"
proof -
  define started where "started = run (DxfUrl (Some a) # es0 @ DxfUrl (Some b) # es1) this"
  define first where "first = step started (Settled r1)"
  define second where "second = step (run es2 first) (Settled r2)"
  have "started = run es1 (step (run es0 (step this (DxfUrl (Some a)))) (DxfUrl (Some b)))"
    by (simp add: started_def run_Cons run_append)
  with assms(2) have started: "isLoading started = True" "error started = None"
    by (simp_all add: quiet_run_frame Load_begin_fields)
  have first: "isLoading first = False" "progress first = None" "curProgressPhase first = None"
      "progressText first = None"
      "error first =
         (case r1 of
            Rejected e \<Rightarrow> (case toString e of Inl thrown \<Rightarrow> None | Inr text \<Rightarrow> Some text)
          | Resolved cam \<Rightarrow> None)"
    using started
    by (simp_all add: first_def Load_settle_fields Load_settle_error
          split: outcome.splits sum.splits)
  have "error (run es2 first) = error first"
    using assms(3) by (simp add: quiet_run_frame)
  then have second: "isLoading second = False" "progress second = None"
      "curProgressPhase second = None" "progressText second = None"
      "error second =
         (case r2 of
            Rejected e \<Rightarrow>
              (case toString e of Inl thrown \<Rightarrow> error first | Inr text \<Rightarrow> Some text)
          | Resolved cam \<Rightarrow> error first)"
    by (simp_all add: second_def Load_settle_fields Load_settle_error
          split: outcome.splits sum.splits)
  from started first second show ?thesis
    unfolding Let_def started_def [symmetric] first_def [symmetric] second_def [symmetric]
    by simp
qed

theorem overlapping_settlements_all_commit_witness:
  "list_all quiet [] \<and> list_all quiet [Progress ''fetch'' (Fin 1) (Some (Fin 4))] \<and>
   list_all quiet [Progress ''parse'' (Fin 3) None] \<and>
   isLoading (run [DxfUrl (Some ''a.dxf''), DxfUrl (Some ''b.dxf''),
                   Progress ''fetch'' (Fin 1) (Some (Fin 4)),
                   Settled (Rejected (JsError ''Error: A''))] data) = False \<and>
   error (run [DxfUrl (Some ''a.dxf''), DxfUrl (Some ''b.dxf''),
               Progress ''fetch'' (Fin 1) (Some (Fin 4)),
               Settled (Rejected (JsError ''Error: A'')),
               Progress ''parse'' (Fin 3) None,
               Settled (Resolved None)] data) = Some ''Error: A''"
proof -
  have q: "list_all quiet []" "list_all quiet [Progress ''fetch'' (Fin 1) (Some (Fin 4))]"
      "list_all quiet [Progress ''parse'' (Fin 3) None]"
    by simp_all
  from overlapping_settlements_all_commit [OF q, of "''a.dxf''" "''b.dxf''" data
      "Rejected (JsError ''Error: A'')" "Resolved None"]
  show ?thesis
    by (simp add: Let_def run_Cons run_Nil)
qed

section \<open>The coordinate mapping\<close>

lemma OnMouseMove_finite:
  assumes "0 < w" and "0 < h"
  shows "OnMouseMove
           (Some \<lparr>GetCanvas = Some \<lparr>rect_left = Fin rl, rect_top = Fin rt,
                                     rect_width = Fin w, rect_height = Fin h\<rparr>,
                   camera = Some \<lparr>cam_left = Fin l, cam_right = Fin r,
                                  cam_top = Fin t, cam_bottom = Fin b\<rparr>\<rparr>)
           \<lparr>clientX = Fin cx, clientY = Fin cy\<rparr> this =
         (this\<lparr>coordinates := Some
            \<lparr>coord_x = Fin (l + ((((cx - rl) / w) * 2 - 1) + 1) * (r - l) / 2),
             coord_y = Fin (b + ((- ((cy - rt) / h) * 2 + 1) + 1) * (t - b) / 2),
             coord_z = Fin 0\<rparr>\<rparr>,
          [(''coordinates-update'',
            \<lparr>coord_x = Fin (l + ((((cx - rl) / w) * 2 - 1) + 1) * (r - l) / 2),
             coord_y = Fin (b + ((- ((cy - rt) / h) * 2 + 1) + 1) * (t - b) / 2),
             coord_z = Fin 0\<rparr>)])"
  using assms by (simp add: OnMouseMove_def js_sub_def Let_def)

text \<open>
  Claim C6. For a pointer at \<open>(x, y)\<close> in a viewport of positive width and height
  (\<open>x\<close> and \<open>y\<close> are the event's client position less the rectangle's left and top)
  and finite camera bounds, the handler stores, and emits as \<open>coordinates-update\<close>, the
  point the specification's mapping gives: \<open>left + (((x / width) * 2 - 1) + 1) *
  (right - left) / 2\<close>, \<open>bottom + ((-(y / height) * 2 + 1) + 1) * (top - bottom) / 2\<close>
  and \<open>0\<close>. With the bounds \<open>-10, 10, 10, -10\<close> and a viewport of 200 by 200, the
  device point \<open>(100, 100)\<close> maps to \<open>(0, 0, 0)\<close>, \<open>(0, 0)\<close> to \<open>(-10, 10, 0)\<close> and
  \<open>(200, 200)\<close> to \<open>(10, -10, 0)\<close>.
\<close>

theorem OnMouseMove_maps_pointer:
  "(0 < w \<and> 0 < h \<longrightarrow>
      (case MapPointer (cx - rl, cy - rt) (w, h) (l, r, t, b) of (worldX, worldY, worldZ) \<Rightarrow>
         OnMouseMove
           (Some \<lparr>GetCanvas = Some \<lparr>rect_left = Fin rl, rect_top = Fin rt,
                                     rect_width = Fin w, rect_height = Fin h\<rparr>,
                   camera = Some \<lparr>cam_left = Fin l, cam_right = Fin r,
                                  cam_top = Fin t, cam_bottom = Fin b\<rparr>\<rparr>)
           \<lparr>clientX = Fin cx, clientY = Fin cy\<rparr> this =
         (this\<lparr>coordinates := Some
            \<lparr>coord_x = Fin worldX, coord_y = Fin worldY, coord_z = Fin worldZ\<rparr>\<rparr>,
          [(''coordinates-update'',
            \<lparr>coord_x = Fin worldX, coord_y = Fin worldY, coord_z = Fin worldZ\<rparr>)]))) \<and>
   MapPointer (x, y) (w, h) (l, r, t, b) =
     (l + (((x / w) * 2 - 1) + 1) * (r - l) / 2, b + ((- (y / h) * 2 + 1) + 1) * (t - b) / 2, 0) \<and>
   MapPointer (100, 100) (200, 200) (- 10, 10, 10, - 10) = (0, 0, 0) \<and>
   MapPointer (0, 0) (200, 200) (- 10, 10, 10, - 10) = (- 10, 10, 0) \<and>
   MapPointer (200, 200) (200, 200) (- 10, 10, 10, - 10) = (10, - 10, 0)"
  by (simp add: OnMouseMove_finite Let_def)

theorem OnMouseMove_maps_pointer_witness:
  "(0::rat) < 200 \<and>
   OnMouseMove
     (Some \<lparr>GetCanvas = Some \<lparr>rect_left = Fin 0, rect_top = Fin 0,
                               rect_width = Fin 200, rect_height = Fin 200\<rparr>,
             camera = Some \<lparr>cam_left = Fin (- 10), cam_right = Fin 10,
                            cam_top = Fin 10, cam_bottom = Fin (- 10)\<rparr>\<rparr>)
     \<lparr>clientX = Fin 100, clientY = Fin 100\<rparr> data =
   (data\<lparr>coordinates := Some \<lparr>coord_x = Fin 0, coord_y = Fin 0, coord_z = Fin 0\<rparr>\<rparr>,
    [(''coordinates-update'', \<lparr>coord_x = Fin 0, coord_y = Fin 0, coord_z = Fin 0\<rparr>)]) \<and>
   OnMouseMove
     (Some \<lparr>GetCanvas = Some \<lparr>rect_left = Fin 0, rect_top = Fin 0,
                               rect_width = Fin 200, rect_height = Fin 200\<rparr>,
             camera = Some \<lparr>cam_left = Fin (- 10), cam_right = Fin 10,
                            cam_top = Fin 10, cam_bottom = Fin (- 10)\<rparr>\<rparr>)
     \<lparr>clientX = Fin 0, clientY = Fin 0\<rparr> data =
   (data\<lparr>coordinates := Some \<lparr>coord_x = Fin (- 10), coord_y = Fin 10, coord_z = Fin 0\<rparr>\<rparr>,
    [(''coordinates-update'', \<lparr>coord_x = Fin (- 10), coord_y = Fin 10, coord_z = Fin 0\<rparr>)]) \<and>
   OnMouseMove
     (Some \<lparr>GetCanvas = Some \<lparr>rect_left = Fin 0, rect_top = Fin 0,
                               rect_width = Fin 200, rect_height = Fin 200\<rparr>,
             camera = Some \<lparr>cam_left = Fin (- 10), cam_right = Fin 10,
                            cam_top = Fin 10, cam_bottom = Fin (- 10)\<rparr>\<rparr>)
     \<lparr>clientX = Fin 200, clientY = Fin 200\<rparr> data =
   (data\<lparr>coordinates := Some \<lparr>coord_x = Fin 10, coord_y = Fin (- 10), coord_z = Fin 0\<rparr>\<rparr>,
    [(''coordinates-update'', \<lparr>coord_x = Fin 10, coord_y = Fin (- 10), coord_z = Fin 0\<rparr>)])"
  using
    OnMouseMove_maps_pointer [where w = 200 and h = 200 and cx = 100 and cy = 100 and rl = 0
      and rt = 0 and l = "- 10" and r = 10 and t = 10 and b = "- 10" and this = data]
    OnMouseMove_maps_pointer [where w = 200 and h = 200 and cx = 0 and cy = 0 and rl = 0
      and rt = 0 and l = "- 10" and r = 10 and t = 10 and b = "- 10" and this = data]
    OnMouseMove_maps_pointer [where w = 200 and h = 200 and cx = 200 and cy = 200 and rl = 0
      and rt = 0 and l = "- 10" and r = 10 and t = 10 and b = "- 10" and this = data]
  by simp

section \<open>The relay of the engine's events\<close>

text \<open>
  Claim C8. \<open>mounted\<close> subscribes once to each of the eight events \<open>loaded\<close>,
  \<open>cleared\<close>, \<open>destroyed\<close>, \<open>resized\<close>, \<open>pointerdown\<close>, \<open>pointerup\<close>,
  \<open>viewChanged\<close> and \<open>message\<close>, in this order. Triggering one of them makes the
  component emit one event, named \<open>dxf-\<close> and the event's name, with the payload as the
  engine gave it; triggering any other event emits nothing. Each registered handler, called
  with a payload, emits \<open>dxf-\<close> and its event's name with that payload.
\<close>

theorem relay_one_to_one:
  "map fst (mounted :: (string \<times> ('p \<Rightarrow> string \<times> 'p)) list) = relayed_events \<and>
   distinct relayed_events \<and> length relayed_events = 8 \<and>
   (eventName \<in> set relayed_events \<longrightarrow>
      trigger mounted eventName (e :: 'p) = [(''dxf-'' @ eventName, e)]) \<and>
   (eventName \<notin> set relayed_events \<longrightarrow> trigger mounted eventName e = []) \<and>
   list_all (\<lambda>(n, h). h e = (''dxf-'' @ n, e)) mounted"
  by (auto simp add: mounted_def relayed_events_def Subscribe_def trigger_def)

theorem relay_one_to_one_witness:
  "''viewChanged'' \<in> set relayed_events \<and>
   trigger mounted ''viewChanged'' (7 :: nat) = [(''dxf-viewChanged'', 7)] \<and>
   ''click'' \<notin> set relayed_events \<and>
   trigger mounted ''click'' (7 :: nat) = []"
proof -
  have m: "''viewChanged'' \<in> set relayed_events" and n: "''click'' \<notin> set relayed_events"
    by (simp_all add: relayed_events_def)
  from relay_one_to_one [where eventName = "''viewChanged''" and e = "7 :: nat"] m
    relay_one_to_one [where eventName = "''click''" and e = "7 :: nat"] n
  show ?thesis by simp
qed

section \<open>Degenerate inputs of the pointer-move handler\<close>

text \<open>A value that is not finite stays so through the handler's arithmetic.\<close>

lemma inf_of_sign_not_finite: "\<not> is_finite (inf_of_sign s)"
  by (simp add: inf_of_sign_def)

lemma js_div_zero_not_finite: "\<not> is_finite (js_div a (Fin 0))"
  by (cases a) (simp_all add: inf_of_sign_not_finite)

lemma js_neg_not_finite: "\<not> is_finite a \<Longrightarrow> \<not> is_finite (js_neg a)"
  by (cases a) simp_all

lemma js_add_not_finite:
  "\<not> is_finite a \<Longrightarrow> \<not> is_finite (js_add a b)"
  "\<not> is_finite a \<Longrightarrow> \<not> is_finite (js_add b a)"
  by (cases a; cases b; simp)+

lemma js_sub_not_finite: "\<not> is_finite a \<Longrightarrow> \<not> is_finite (js_sub a b)"
  by (simp add: js_sub_def js_add_not_finite)

lemma js_mul_not_finite: "\<not> is_finite a \<Longrightarrow> \<not> is_finite (js_mul a b)"
  by (cases a; cases b; simp add: inf_of_sign_not_finite)

lemma js_div_not_finite: "\<not> is_finite a \<Longrightarrow> \<not> is_finite (js_div a b)"
  by (cases a; cases b; simp)

text \<open>
  Claim C5, as stated, fails: the handler does not look at the rectangle's width and
  height. With a rectangle of width and height zero and a camera, a mouse move at
  \<open>(5, 5)\<close> stores and emits the coordinates \<open>(Infinity, -Infinity, 0)\<close>.
\<close>

theorem zero_viewport_counterexample:
  "OnMouseMove
     (Some \<lparr>GetCanvas = Some \<lparr>rect_left = Fin 0, rect_top = Fin 0,
                               rect_width = Fin 0, rect_height = Fin 0\<rparr>,
             camera = Some \<lparr>cam_left = Fin (- 10), cam_right = Fin 10,
                            cam_top = Fin 10, cam_bottom = Fin (- 10)\<rparr>\<rparr>)
     \<lparr>clientX = Fin 5, clientY = Fin 5\<rparr> data =
   (data\<lparr>coordinates := Some \<lparr>coord_x = PosInf, coord_y = NegInf, coord_z = Fin 0\<rparr>\<rparr>,
    [(''coordinates-update'', \<lparr>coord_x = PosInf, coord_y = NegInf, coord_z = Fin 0\<rparr>)])"
  by (simp add: OnMouseMove_def js_sub_def inf_of_sign_def Let_def)

text \<open>
  Claim C5, amended. The handler changes nothing and emits nothing when there is no
  engine, no canvas or no camera. With a canvas and a camera it stores a point with
  \<open>z = 0\<close> and emits it as \<open>coordinates-update\<close>, whatever the rectangle: when the
  rectangle's width is zero the stored \<open>x\<close> is not finite, and when its height is zero
  the stored \<open>y\<close> is not finite.
\<close>

theorem OnMouseMove_guards:
  "OnMouseMove None ev this = (this, []) \<and>
   (GetCanvas viewer = None \<or> camera viewer = None \<longrightarrow>
      OnMouseMove (Some viewer) ev this = (this, [])) \<and>
   (GetCanvas viewer = Some rect \<and> camera viewer = Some cam \<longrightarrow>
      (\<exists>c. OnMouseMove (Some viewer) ev this =
              (this\<lparr>coordinates := Some c\<rparr>, [(''coordinates-update'', c)]) \<and>
           coord_z c = Fin 0 \<and>
           (rect_width rect = Fin 0 \<longrightarrow> \<not> is_finite (coord_x c)) \<and>
           (rect_height rect = Fin 0 \<longrightarrow> \<not> is_finite (coord_y c))))"
proof -
  have absent: "OnMouseMove (Some viewer) ev this = (this, [])"
    if "GetCanvas viewer = None \<or> camera viewer = None"
    using that by (auto simp add: OnMouseMove_def Let_def split: option.splits)
  have present: "\<exists>c. OnMouseMove (Some viewer) ev this =
              (this\<lparr>coordinates := Some c\<rparr>, [(''coordinates-update'', c)]) \<and>
           coord_z c = Fin 0 \<and>
           (rect_width rect = Fin 0 \<longrightarrow> \<not> is_finite (coord_x c)) \<and>
           (rect_height rect = Fin 0 \<longrightarrow> \<not> is_finite (coord_y c))"
    if "GetCanvas viewer = Some rect" and "camera viewer = Some cam"
    using that
    by (simp add: OnMouseMove_def Let_def js_div_zero_not_finite js_mul_not_finite
          js_sub_not_finite js_add_not_finite js_div_not_finite js_neg_not_finite)
  from absent present show ?thesis
    by (simp add: OnMouseMove_def)
qed

theorem OnMouseMove_guards_witness:
  "camera \<lparr>GetCanvas = Some \<lparr>rect_left = Fin 0, rect_top = Fin 0,
                               rect_width = Fin 200, rect_height = Fin 200\<rparr>,
            camera = None\<rparr> = None \<and>
   OnMouseMove
     (Some \<lparr>GetCanvas = Some \<lparr>rect_left = Fin 0, rect_top = Fin 0,
                               rect_width = Fin 200, rect_height = Fin 200\<rparr>,
             camera = None\<rparr>)
     \<lparr>clientX = Fin 5, clientY = Fin 5\<rparr> data = (data, []) \<and>
   rect_width \<lparr>rect_left = Fin 0, rect_top = Fin 0, rect_width = Fin 0, rect_height = Fin 0\<rparr>
     = Fin 0 \<and>
   (\<exists>c. OnMouseMove
          (Some \<lparr>GetCanvas = Some \<lparr>rect_left = Fin 0, rect_top = Fin 0,
                                    rect_width = Fin 0, rect_height = Fin 0\<rparr>,
                  camera = Some \<lparr>cam_left = Fin (- 10), cam_right = Fin 10,
                                 cam_top = Fin 10, cam_bottom = Fin (- 10)\<rparr>\<rparr>)
          \<lparr>clientX = Fin 5, clientY = Fin 5\<rparr> data =
        (data\<lparr>coordinates := Some c\<rparr>, [(''coordinates-update'', c)]) \<and>
        \<not> is_finite (coord_x c) \<and> \<not> is_finite (coord_y c))"
  using
    OnMouseMove_guards [where viewer = "\<lparr>GetCanvas = Some \<lparr>rect_left = Fin 0, rect_top = Fin 0,
                               rect_width = Fin 200, rect_height = Fin 200\<rparr>,
            camera = None\<rparr>" and ev = "\<lparr>clientX = Fin 5, clientY = Fin 5\<rparr>" and this = data]
    OnMouseMove_guards [where viewer = "\<lparr>GetCanvas = Some \<lparr>rect_left = Fin 0, rect_top = Fin 0,
                                    rect_width = Fin 0, rect_height = Fin 0\<rparr>,
                  camera = Some \<lparr>cam_left = Fin (- 10), cam_right = Fin 10,
                                 cam_top = Fin 10, cam_bottom = Fin (- 10)\<rparr>\<rparr>"
       and ev = "\<lparr>clientX = Fin 5, clientY = Fin 5\<rparr>" and this = data
       and rect = "\<lparr>rect_left = Fin 0, rect_top = Fin 0, rect_width = Fin 0, rect_height = Fin 0\<rparr>"
       and cam = "\<lparr>cam_left = Fin (- 10), cam_right = Fin 10,
                                 cam_top = Fin 10, cam_bottom = Fin (- 10)\<rparr>"]
  by simp blast

end
